theory Spec2Isabelle
  imports Main "HOL-Library.Word"
begin

section \<open>The image handler's entry point (source/image-handler/index.js)\<close>

text \<open>
  The module exports one asynchronous function, \<open>handler\<close>, and keeps one piece of
  state between invocations, \<open>this.secretKey\<close>. It talks to four collaborators: the
  parameter store (\<open>getParameter\<close>), the request parser (\<open>ImageRequest.setup\<close>), the
  image pipeline (\<open>ImageHandler.process\<close>) and the object store (\<open>s3.getObject\<close>).
  The collaborators are not part of the module; here they are functions of a record
  \<open>world\<close>, each returning either the failure it throws (\<open>Inl\<close>) or its result
  (\<open>Inr\<close>), and every theorem ranges over all such functions.

  What the model takes as given: the event is JSON data, as the runtime delivers it;
  an object holds primitive values; a collaborator that resolves gives an object of
  the expected shape; the two constructors and the logging calls do not throw; the
  invocations of one process run one after the other.
\<close>

subsection \<open>JavaScript values\<close>

text \<open>
  The primitive values the module moves around. Numbers are the integers (status
  codes); strings are lists of code units below 256.
\<close>

datatype jsvalue = Undefined | Null | Bool bool | Num int | Str string

text \<open>ToBoolean, as \<open>if (v)\<close>, \<open>v ? a : b\<close>, \<open>v && w\<close> and \<open>!!v\<close> apply it.\<close>

fun truthy :: "jsvalue \<Rightarrow> bool" where
  "truthy Undefined = False"
| "truthy Null = False"
| "truthy (Bool b) = b"
| "truthy (Num n) = (n \<noteq> 0)"
| "truthy (Str s) = (s \<noteq> [])"

text \<open>
  An object is the list of its own enumerable properties, in the order in which
  \<open>for ... in\<close> and \<open>JSON.stringify\<close> visit them. Reading a property that the object
  does not have gives \<open>undefined\<close>.
\<close>

type_synonym jsobject = "(string \<times> jsvalue) list"

definition property :: "jsobject \<Rightarrow> string \<Rightarrow> jsvalue" where
  "property obj k = (case map_of obj k of None \<Rightarrow> Undefined | Some v \<Rightarrow> v)"

text \<open>
  \<open>process.env\<close>: a variable is a string or is not set. \<open>env_value\<close> is the value the
  expression \<open>process.env.X\<close> has.
\<close>

type_synonym env = "string \<rightharpoonup> string"

definition env_value :: "string option \<Rightarrow> jsvalue" where
  "env_value x = (case x of None \<Rightarrow> Undefined | Some s \<Rightarrow> Str s)"

subsection \<open>Library functions the module calls\<close>

text \<open>
  \<open>s.replace(/\s/, '')\<close>: the pattern has no \<open>g\<close> flag, so the first character that
  \<open>\s\<close> matches is removed and the rest of the string is kept. Below 256 the class
  \<open>\s\<close> is tab, line feed, vertical tab, form feed, carriage return, space and the
  no-break space.
\<close>

definition is_whitespace :: "char \<Rightarrow> bool" where
  "is_whitespace c =
     (c = CHR 0x09 \<or> c = CHR 0x0A \<or> c = CHR 0x0B \<or> c = CHR 0x0C \<or> c = CHR 0x0D
      \<or> c = CHR 0x20 \<or> c = CHR 0xA0)"

fun replace_whitespace :: "string \<Rightarrow> string" where
  "replace_whitespace [] = []"
| "replace_whitespace (c # cs) = (if is_whitespace c then cs else c # replace_whitespace cs)"

text \<open>
  \<open>buffer.toString('base64')\<close>: three bytes give four characters of the standard
  alphabet; a last group of one or two bytes is padded with \<open>=\<close>.
\<close>

definition base64_alphabet :: string where
  "base64_alphabet = ''ABCDEFGHIJKLMNOPQRSTUVWXYZabcdefghijklmnopqrstuvwxyz0123456789+/''"

definition base64_char :: "nat \<Rightarrow> char" where
  "base64_char i = base64_alphabet ! (i mod 64)"

fun toString_base64 :: "8 word list \<Rightarrow> string" where
  "toString_base64 [] = []"
| "toString_base64 [a] =
     [base64_char (unat a div 4), base64_char (unat a mod 4 * 16), CHR ''='', CHR ''='']"
| "toString_base64 [a, b] =
     [base64_char (unat a div 4), base64_char (unat a mod 4 * 16 + unat b div 16),
      base64_char (unat b mod 16 * 4), CHR ''='']"
| "toString_base64 (a # b # c # rest) =
     [base64_char (unat a div 4), base64_char (unat a mod 4 * 16 + unat b div 16),
      base64_char (unat b mod 16 * 4 + unat c div 64), base64_char (unat c mod 64)]
     @ toString_base64 rest"

text \<open>
  \<open>JSON.stringify\<close> on an object of primitive values. A string is quoted, with the
  two-character escapes for backspace, tab, line feed, form feed, carriage return, the
  double quote and the backslash, and \<open>\u00XX\<close> for the other control characters. A
  property whose value is \<open>undefined\<close> is left out.
\<close>

definition hex_digit :: "nat \<Rightarrow> char" where
  "hex_digit d = ''0123456789abcdef'' ! (d mod 16)"

definition json_escape :: "char \<Rightarrow> string" where
  "json_escape c =
     (if c = CHR 0x08 then [CHR 0x5C, CHR ''b'']
      else if c = CHR 0x09 then [CHR 0x5C, CHR ''t'']
      else if c = CHR 0x0A then [CHR 0x5C, CHR ''n'']
      else if c = CHR 0x0C then [CHR 0x5C, CHR ''f'']
      else if c = CHR 0x0D then [CHR 0x5C, CHR ''r'']
      else if c = CHR 0x22 then [CHR 0x5C, CHR 0x22]
      else if c = CHR 0x5C then [CHR 0x5C, CHR 0x5C]
      else if (of_char c :: nat) < 32
        then [CHR 0x5C, CHR ''u'', CHR ''0'', CHR ''0'',
              hex_digit (of_char c div 16), hex_digit (of_char c mod 16)]
      else [c])"

definition json_quote :: "string \<Rightarrow> string" where
  "json_quote s = [CHR 0x22] @ concat (map json_escape s) @ [CHR 0x22]"

fun decimal :: "nat \<Rightarrow> string" where
  "decimal n =
     (if n < 10 then [''0123456789'' ! n]
      else decimal (n div 10) @ [''0123456789'' ! (n mod 10)])"

declare decimal.simps [simp del]

definition number_toString :: "int \<Rightarrow> string" where
  "number_toString i = (if i < 0 then CHR ''-'' # decimal (nat (- i)) else decimal (nat i))"

fun json_value :: "jsvalue \<Rightarrow> string option" where
  "json_value Undefined = None"
| "json_value Null = Some ''null''"
| "json_value (Bool b) = Some (if b then ''true'' else ''false'')"
| "json_value (Num n) = Some (number_toString n)"
| "json_value (Str s) = Some (json_quote s)"

fun json_members :: "jsobject \<Rightarrow> string list" where
  "json_members [] = []"
| "json_members ((k, v) # kvs) =
     (case json_value v of
        None \<Rightarrow> json_members kvs
      | Some t \<Rightarrow> (json_quote k @ '':'' @ t) # json_members kvs)"

fun join :: "string \<Rightarrow> string list \<Rightarrow> string" where
  "join sep [] = []"
| "join sep [x] = x"
| "join sep (x # y # ys) = x @ sep @ join sep (y # ys)"

definition JSON_stringify :: "jsobject \<Rightarrow> string" where
  "JSON_stringify obj = ''{'' @ join '','' (json_members obj) @ ''}''"

subsection \<open>Data of one invocation\<close>

text \<open>
  Of the inbound event the module reads \<open>event.requestContext\<close> only: whether it is
  truthy, and whether it has an own property \<open>elb\<close>. \<open>Null_event\<close> is an event that is
  \<open>null\<close> or \<open>undefined\<close>. In \<open>Event c\<close> the value \<open>c\<close> is \<open>None\<close> when \<open>requestContext\<close> is
  missing or falsy, and else the list of the names of its own properties (none, for a
  primitive value). The rest of the event is read by the parser alone.
\<close>

datatype event = Null_event | Event (requestContext: "string list option")

text \<open>
  What \<open>ImageRequest.setup\<close> resolves with, as far as the module reads it: four
  metadata values and the optional object of custom headers.
\<close>

record request =
  ContentType :: jsvalue
  Expires :: jsvalue
  LastModified :: jsvalue
  CacheControl :: jsvalue
  headers :: "jsobject option"

text \<open>What \<open>s3.getObject\<close> resolves with, as far as the module reads it.\<close>

record getObjectOutput =
  ContentType :: jsvalue
  LastModified :: jsvalue
  Body :: "8 word list"

text \<open>The object the handler returns. A header object maps a name to its value.\<close>

type_synonym header_object = "string \<rightharpoonup> jsvalue"

record response =
  statusCode :: jsvalue
  isBase64Encoded :: bool
  headers :: header_object
  body :: string

text \<open>
  A failure is the value that was thrown: \<open>null\<close> or \<open>undefined\<close> (\<open>Nullish\<close>), or an
  object, given by its own enumerable properties. \<open>Unserialisable obj\<close> is an object
  with the properties \<open>obj\<close> and one more, of another name than \<open>status\<close>, that holds
  the object itself, so that \<open>JSON.stringify\<close> throws a \<open>TypeError\<close>. Any other thrown
  primitive has no property \<open>status\<close> and is never serialised, so the module treats
  it as it treats \<open>Object []\<close>. A \<open>TypeError\<close> that the engine raises has no enumerable
  property.
\<close>

datatype failure = Nullish | Object jsobject | Unserialisable jsobject

definition type_error :: failure where
  "type_error = Object []"

text \<open>
  The expression \<open>err.status\<close>: reading a property of \<open>null\<close> or \<open>undefined\<close> throws.
\<close>

fun status_of :: "failure \<Rightarrow> failure + jsvalue" where
  "status_of Nullish = Inl type_error"
| "status_of (Object obj) = Inr (property obj ''status'')"
| "status_of (Unserialisable obj) = Inr (property obj ''status'')"

text \<open>
  The collaborators of one invocation:
  \<open>parameterStore_getParameter name\<close> is \<open>response.Parameter.Value\<close> of the
  resolved request, or the failure of the request or of reading that value;
  \<open>imageRequest_setup secretKey event\<close> is the parser built with the secret;
  \<open>imageHandler_process request\<close> gives the base64 text of the image;
  \<open>s3_getObject bucket key\<close> is the object store.
\<close>

record world =
  parameterStore_getParameter :: "jsvalue \<Rightarrow> failure + jsvalue"
  imageRequest_setup :: "jsvalue \<Rightarrow> event \<Rightarrow> failure + request"
  imageHandler_process :: "request \<Rightarrow> failure + string"
  s3_getObject :: "string \<Rightarrow> string \<Rightarrow> failure + getObjectOutput"

text \<open>
  The state of the process: \<open>this.secretKey\<close>, which starts as \<open>undefined\<close>, and, as a
  record of what the module did, the requests it has sent to the parameter store and
  to the object store, oldest first.
\<close>

datatype call = is_GetParameter: GetParameter jsvalue | is_GetObject: GetObject string string

record state =
  secretKey :: jsvalue
  calls :: "call list"

definition initial_state :: state where
  "initial_state = \<lparr>secretKey = Undefined, calls = []\<rparr>"

subsection \<open>getResponseHeaders (lines 101 to 117)\<close>

definition getResponseHeaders :: "env \<Rightarrow> bool \<Rightarrow> bool \<Rightarrow> header_object" where
  "getResponseHeaders env isErr isAlb =
     (let corsEnabled = (env ''CORS_ENABLED'' = Some ''Yes'');
          headers0 = [''Access-Control-Allow-Methods'' \<mapsto> Str ''GET'',
                      ''Access-Control-Allow-Headers'' \<mapsto> Str ''Content-Type, Authorization''];
          headers1 = (if \<not> isAlb
                      then headers0(''Access-Control-Allow-Credentials'' \<mapsto> Bool True)
                      else headers0);
          headers2 = (if corsEnabled
                      then headers1(''Access-Control-Allow-Origin'' \<mapsto> env_value (env ''CORS_ORIGIN''))
                      else headers1);
          headers3 = (if isErr
                      then headers2(''Content-Type'' \<mapsto> Str ''application/json'')
                      else headers2)
      in headers3)"

subsection \<open>ensureSecretKeyLoaded (lines 122 to 134)\<close>

text \<open>
  The result is \<open>Inl err\<close> when the function throws. The \<open>catch\<close> logs and throws the
  failure again, so a failed request leaves \<open>this.secretKey\<close> as it was.
\<close>

definition ensureSecretKeyLoaded :: "world \<Rightarrow> env \<Rightarrow> state \<Rightarrow> (failure + unit) \<times> state" where
  "ensureSecretKeyLoaded w env s =
     (if truthy (secretKey s) then (Inr (), s)
      else if env ''ENABLE_SIGNATURE'' \<noteq> Some ''Yes'' then (Inr (), s)
      else
        (let name = env_value (env ''PS_PARAMETER_NAME'');
             s1 = s\<lparr>calls := calls s @ [GetParameter name]\<rparr>
         in case parameterStore_getParameter w name of
              Inl err \<Rightarrow> (Inl err, s1)
            | Inr v \<Rightarrow> (Inr (), s1\<lparr>secretKey := v\<rparr>)))"

subsection \<open>handler (lines 14 to 92)\<close>

text \<open>The \<open>try\<close> block, lines 24 to 46: parse, process, build the headers, return.\<close>

text \<open>
  The loop of lines 36 to 38 over the properties of \<open>request.headers\<close>. The header
  object is an object literal, so \<open>headers['__proto__'] = v\<close> runs the setter it
  inherits from \<open>Object.prototype\<close> and stores no property: for \<open>null\<close> the setter takes
  the prototype away, and with it the setter; for another primitive value it does
  nothing. \<open>proto\<close> tells whether the header object still has its prototype.
\<close>

fun custom_headers :: "jsobject \<Rightarrow> bool \<Rightarrow> header_object \<Rightarrow> header_object" where
  "custom_headers [] proto h = h"
| "custom_headers ((key, v) # rest) proto h =
     (if key = ''__proto__'' \<and> proto then custom_headers rest (v \<noteq> Null) h
      else custom_headers rest proto (h(key \<mapsto> v)))"

definition try_block :: "world \<Rightarrow> env \<Rightarrow> jsvalue \<Rightarrow> event \<Rightarrow> bool \<Rightarrow> failure + response" where
  "try_block w env secret event isAlb =
     (case imageRequest_setup w secret event of
        Inl err \<Rightarrow> Inl err
      | Inr request \<Rightarrow>
          (case imageHandler_process w request of
             Inl err \<Rightarrow> Inl err
           | Inr processedRequest \<Rightarrow>
               (let headers0 = getResponseHeaders env False isAlb;
                    headers1 = headers0(''Content-Type'' \<mapsto> request.ContentType request);
                    headers2 = headers1(''Expires'' \<mapsto> Expires request);
                    headers3 = headers2(''Last-Modified'' \<mapsto> request.LastModified request);
                    headers4 = headers3(''Cache-Control'' \<mapsto> CacheControl request);
                    headers5 = (case request.headers request of
                                  None \<Rightarrow> headers4
                                | Some obj \<Rightarrow> custom_headers obj True headers4)
                in Inr \<lparr>statusCode = Num 200, isBase64Encoded = True,
                         headers = headers5, body = processedRequest\<rparr>)))"

text \<open>
  The condition of lines 51 to 55. It gives the bucket and the key when the fallback
  image is to be fetched. \<open>process.env.X && ...\<close> holds for a variable that is set and
  not empty.
\<close>

definition default_fallback_image :: "env \<Rightarrow> (string \<times> string) option" where
  "default_fallback_image env =
     (case env ''DEFAULT_FALLBACK_IMAGE_BUCKET'' of
        None \<Rightarrow> None
      | Some bucket \<Rightarrow>
          (case env ''DEFAULT_FALLBACK_IMAGE_KEY'' of
             None \<Rightarrow> None
           | Some objectKey \<Rightarrow>
               if env ''ENABLE_DEFAULT_FALLBACK_IMAGE'' = Some ''Yes''
                  \<and> bucket \<noteq> [] \<and> replace_whitespace bucket \<noteq> []
                  \<and> objectKey \<noteq> [] \<and> replace_whitespace objectKey \<noteq> []
               then Some (bucket, objectKey) else None))"

text \<open>
  The response of lines 60 to 70, from the fetched object and the value of
  \<open>err.status\<close>. Line 66 reads \<open>err.status\<close> and may throw, inside the inner \<open>try\<close>.
\<close>

definition image_response :: "env \<Rightarrow> bool \<Rightarrow> jsvalue \<Rightarrow> getObjectOutput \<Rightarrow> response" where
  "image_response env isAlb status defaultFallbackImage =
     (let headers0 = getResponseHeaders env False isAlb;
          headers1 = headers0(''Content-Type'' \<mapsto> getObjectOutput.ContentType defaultFallbackImage);
          headers2 = headers1(''Last-Modified'' \<mapsto> getObjectOutput.LastModified defaultFallbackImage);
          headers3 = headers2(''Cache-Control'' \<mapsto> Str ''max-age=31536000,public'')
      in \<lparr>statusCode = (if truthy status then status else Num 500),
          isBase64Encoded = True,
          headers = headers3,
          body = toString_base64 (Body defaultFallbackImage)\<rparr>)"

definition fallback_response ::
  "env \<Rightarrow> bool \<Rightarrow> failure \<Rightarrow> getObjectOutput \<Rightarrow> failure + response" where
  "fallback_response env isAlb err defaultFallbackImage =
     (case status_of err of
        Inl error \<Rightarrow> Inl error
      | Inr status \<Rightarrow> Inr (image_response env isAlb status defaultFallbackImage))"

text \<open>
  Lines 76 to 90, which stand outside the inner \<open>try\<close>. Line 76 reads \<open>err.status\<close> and
  throws when the failure is \<open>null\<close> or \<open>undefined\<close>; line 81 serialises the failure
  and throws when \<open>JSON.stringify\<close> refuses it. \<open>classified_response\<close> is the object of
  lines 77 to 82, \<open>internal_error_response\<close> the fixed one of lines 84 to 89.
\<close>

definition internal_error :: jsobject where
  "internal_error =
     [(''message'', Str ''Internal error. Please contact the system administrator.''),
      (''code'', Str ''InternalError''),
      (''status'', Num 500)]"

definition classified_response :: "env \<Rightarrow> bool \<Rightarrow> jsobject \<Rightarrow> response" where
  "classified_response env isAlb obj =
     \<lparr>statusCode = property obj ''status'', isBase64Encoded = False,
      headers = getResponseHeaders env True isAlb, body = JSON_stringify obj\<rparr>"

definition internal_error_response :: "env \<Rightarrow> bool \<Rightarrow> response" where
  "internal_error_response env isAlb =
     \<lparr>statusCode = Num 500, isBase64Encoded = False,
      headers = getResponseHeaders env True isAlb, body = JSON_stringify internal_error\<rparr>"

definition error_response :: "env \<Rightarrow> bool \<Rightarrow> failure \<Rightarrow> failure + response" where
  "error_response env isAlb err =
     (case err of
        Nullish \<Rightarrow> Inl type_error
      | Object obj \<Rightarrow>
          Inr (if truthy (property obj ''status'') then classified_response env isAlb obj
               else internal_error_response env isAlb)
      | Unserialisable obj \<Rightarrow>
          if truthy (property obj ''status'') then Inl type_error
          else Inr (internal_error_response env isAlb))"

text \<open>
  The \<open>catch\<close> block, lines 47 to 91. A failure of the fetch, or of building the
  fallback response, is logged and dropped by the inner \<open>catch\<close>, and control goes on
  to lines 76 to 90. \<open>Inl\<close> is a failure that leaves the \<open>catch\<close> block.
\<close>

definition catch_block ::
  "world \<Rightarrow> env \<Rightarrow> bool \<Rightarrow> failure \<Rightarrow> state \<Rightarrow> (failure + response) \<times> state" where
  "catch_block w env isAlb err s =
     (case default_fallback_image env of
        None \<Rightarrow> (error_response env isAlb err, s)
      | Some (bucket, objectKey) \<Rightarrow>
          (let s1 = s\<lparr>calls := calls s @ [GetObject bucket objectKey]\<rparr>
           in case s3_getObject w bucket objectKey of
                Inl error \<Rightarrow> (error_response env isAlb err, s1)
              | Inr defaultFallbackImage \<Rightarrow>
                  (case fallback_response env isAlb err defaultFallbackImage of
                     Inl error \<Rightarrow> (error_response env isAlb err, s1)
                   | Inr r \<Rightarrow> (Inr r, s1))))"

text \<open>
  Line 21, which stands before the \<open>try\<close>:
  \<open>event.requestContext && event.requestContext.hasOwnProperty('elb')\<close>. Reading a
  property of a \<open>null\<close> event throws. An own property \<open>hasOwnProperty\<close> of the request
  context hides the method of that name; its value is data, and calling it throws.
  \<open>Inr b\<close> is the truth value of the expression.
\<close>

fun is_alb :: "event \<Rightarrow> failure + bool" where
  "is_alb Null_event = Inl type_error"
| "is_alb (Event None) = Inr False"
| "is_alb (Event (Some ctx)) =
     (if ''hasOwnProperty'' \<in> set ctx then Inl type_error else Inr (''elb'' \<in> set ctx))"

text \<open>An invocation is of ALB origin when line 21 gives a true value.\<close>

definition alb_origin :: "event \<Rightarrow> bool" where
  "alb_origin event = (is_alb event = Inr True)"

text \<open>
  The handler. \<open>Inl err\<close> is the promise rejected with \<open>err\<close>: lines 17 and 21 stand
  before the \<open>try\<close>, and a failure may leave the \<open>catch\<close> block.
\<close>

definition handler :: "world \<Rightarrow> env \<Rightarrow> event \<Rightarrow> state \<Rightarrow> (failure + response) \<times> state" where
  "handler w env event s =
     (case ensureSecretKeyLoaded w env s of
        (Inl err, s1) \<Rightarrow> (Inl err, s1)
      | (Inr _, s1) \<Rightarrow>
          (case is_alb event of
             Inl err \<Rightarrow> (Inl err, s1)
           | Inr isAlb \<Rightarrow>
               (case try_block w env (secretKey s1) event isAlb of
                  Inr r \<Rightarrow> (Inr r, s1)
                | Inl err \<Rightarrow> catch_block w env isAlb err s1)))"

subsection \<open>The layers of the headers of a success response\<close>

text \<open>
  The specification describes the headers of a success response as three layers laid
  over each other: the composed headers, the metadata of the processed request, and
  its custom headers. The composed headers are \<open>getResponseHeaders\<close>; the other two
  layers, written as maps after the specification's words, are compared with lines 28
  to 39 in lemma \<open>success_header_layers\<close>. In a list of properties a later entry of
  the same name is assigned later, hence \<open>rev\<close>. The one name at which the code and the
  layers can differ is \<open>__proto__\<close>, which the loop does not store.
\<close>

definition metadata_layer :: "request \<Rightarrow> header_object" where
  "metadata_layer request =
     [''Content-Type'' \<mapsto> request.ContentType request,
      ''Expires'' \<mapsto> Expires request,
      ''Last-Modified'' \<mapsto> request.LastModified request,
      ''Cache-Control'' \<mapsto> CacheControl request]"

definition custom_layer :: "request \<Rightarrow> header_object" where
  "custom_layer request =
     (case request.headers request of None \<Rightarrow> Map.empty | Some obj \<Rightarrow> map_of (rev obj))"

subsection \<open>Runs of a process\<close>

text \<open>
  A process runs its invocations one after the other, each with its own event and its
  own outcomes of the collaborators, on the state the one before left.
\<close>

fun invocations :: "env \<Rightarrow> (world \<times> event) list \<Rightarrow> state \<Rightarrow> state" where
  "invocations env [] s = s"
| "invocations env ((w, event) # rest) s = invocations env rest (snd (handler w env event s))"

text \<open>
  The number of invocations of a run that store a secret: they leave \<open>this.secretKey\<close>
  changed and truthy.
\<close>

fun secret_loads :: "env \<Rightarrow> (world \<times> event) list \<Rightarrow> state \<Rightarrow> nat" where
  "secret_loads env [] s = 0"
| "secret_loads env ((w, event) # rest) s =
     (let s' = snd (handler w env event s)
      in (if secretKey s' \<noteq> secretKey s \<and> truthy (secretKey s') then 1 else 0)
         + secret_loads env rest s')"

subsection \<open>Example invocations\<close>

definition example_world ::
  "(failure + jsvalue) \<Rightarrow> (failure + request) \<Rightarrow> (failure + string)
     \<Rightarrow> (failure + getObjectOutput) \<Rightarrow> world" where
  "example_world secret parsed processed fetched =
     \<lparr>parameterStore_getParameter = (\<lambda>name. secret),
      imageRequest_setup = (\<lambda>secretKey event. parsed),
      imageHandler_process = (\<lambda>request. processed),
      s3_getObject = (\<lambda>bucket objectKey. fetched)\<rparr>"

definition gateway_event :: event where
  "gateway_event = Event (Some [''requestId'', ''stage''])"

definition alb_event :: event where
  "alb_event = Event (Some [''elb''])"

text \<open>
  An event whose request context has an own property \<open>hasOwnProperty\<close>, and a failure
  with a status that contains itself.
\<close>

definition shadowed_event :: event where
  "shadowed_event = Event (Some [''elb'', ''hasOwnProperty''])"


text \<open>The properties of two failures, one with a status and one without.\<close>

definition not_found :: jsobject where
  "not_found = [(''status'', Num 404), (''code'', Str ''NoSuchKey''),
                (''message'', Str ''The image does not exist.'')]"

definition access_denied :: jsobject where
  "access_denied = [(''code'', Str ''AccessDeniedException''), (''statusCode'', Num 400)]"

definition example_request :: "jsobject option \<Rightarrow> request" where
  "example_request custom =
     \<lparr>request.ContentType = Str ''image/png'', Expires = Undefined,
      request.LastModified = Str ''Wed, 21 Oct 2015 07:28:00 GMT'',
      CacheControl = Str ''max-age=60,public'', request.headers = custom\<rparr>"

definition example_image :: getObjectOutput where
  "example_image =
     \<lparr>ContentType = Str ''image/jpeg'', LastModified = Str ''Thu, 01 Jan 2015 00:00:00 GMT'',
      Body = [0x4D, 0x61, 0x6E, 0x79]\<rparr>"

definition fallback_env :: "string \<Rightarrow> string \<Rightarrow> env" where
  "fallback_env bucket objectKey =
     [''ENABLE_DEFAULT_FALLBACK_IMAGE'' \<mapsto> ''Yes'',
      ''DEFAULT_FALLBACK_IMAGE_BUCKET'' \<mapsto> bucket,
      ''DEFAULT_FALLBACK_IMAGE_KEY'' \<mapsto> objectKey]"

definition cors_env :: env where
  "cors_env = [''CORS_ENABLED'' \<mapsto> ''Yes'', ''CORS_ORIGIN'' \<mapsto> ''https://example.com'']"

definition signature_env :: env where
  "signature_env = [''ENABLE_SIGNATURE'' \<mapsto> ''Yes'', ''PS_PARAMETER_NAME'' \<mapsto> ''/images/key'']"

text \<open>
  A parser that resolves with the given request, an image pipeline that resolves, and
  the response lines 28 to 46 build from them.
\<close>

definition success_world :: "request \<Rightarrow> world" where
  "success_world request =
     example_world (Inr (Str ''k'')) (Inr request) (Inr ''TWFueQ=='') (Inl (Object access_denied))"

text \<open>
  A parser that fails with the given failure, and an object store that either fails or
  returns the example image.
\<close>

definition failing_world :: "failure \<Rightarrow> bool \<Rightarrow> world" where
  "failing_world err fetched =
     example_world (Inr (Str ''k'')) (Inl err) (Inr ''TWFueQ=='')
       (if fetched then Inr example_image else Inl (Object access_denied))"

definition success_response :: "env \<Rightarrow> bool \<Rightarrow> request \<Rightarrow> response" where
  "success_response env isAlb request =
     \<lparr>statusCode = Num 200, isBase64Encoded = True,
      headers =
        (case request.headers request of
           None \<Rightarrow> getResponseHeaders env False isAlb ++ metadata_layer request
         | Some obj \<Rightarrow>
             custom_headers obj True
               (getResponseHeaders env False isAlb ++ metadata_layer request)),
      body = ''TWFueQ==''\<rparr>"

definition custom_request :: request where
  "custom_request =
     example_request (Some [(''Cache-Control'', Str ''no-store''), (''X-Foo'', Str ''bar'')])"

text \<open>A request with a custom header named \<open>__proto__\<close>.\<close>

definition proto_request :: request where
  "proto_request = example_request (Some [(''__proto__'', Str ''x''), (''X-Foo'', Str ''bar'')])"

text \<open>
  Three invocations of one process: the parameter store fails, then gives a secret,
  then would give another one.
\<close>

definition secret_run :: "(world \<times> event) list" where
  "secret_run =
     [(example_world (Inl (Object access_denied)) (Inl (Object not_found)) (Inr ''TWFueQ=='')
         (Inl (Object access_denied)),
       gateway_event),
      (example_world (Inr (Str ''s3cr3t'')) (Inl (Object not_found)) (Inr ''TWFueQ=='')
         (Inl (Object access_denied)),
       gateway_event),
      (example_world (Inr (Str ''other'')) (Inl (Object not_found)) (Inr ''TWFueQ=='')
         (Inl (Object access_denied)),
       alb_event)]"

section \<open>Properties\<close>

subsection \<open>The header composer\<close>

lemma getResponseHeaders_content_type:
  "getResponseHeaders env isErr isAlb ''Content-Type'' =
     (if isErr then Some (Str ''application/json'') else None)"
  by (simp add: getResponseHeaders_def Let_def)

lemma getResponseHeaders_credentials:
  "getResponseHeaders env isErr isAlb ''Access-Control-Allow-Credentials'' =
     (if isAlb then None else Some (Bool True))"
  by (simp add: getResponseHeaders_def Let_def)

lemma getResponseHeaders_origin:
  "getResponseHeaders env isErr isAlb ''Access-Control-Allow-Origin'' =
     (if env ''CORS_ENABLED'' = Some ''Yes'' then Some (env_value (env ''CORS_ORIGIN'')) else None)"
  by (simp add: getResponseHeaders_def Let_def)


subsection \<open>The responses of the catch block\<close>

text \<open>
  Where lines 76 to 90 return a response, it has the headers composed in error mode
  and is no image; where they throw, they throw a \<open>TypeError\<close>. The fallback response
  is an image, and building it fails for \<open>null\<close> and \<open>undefined\<close> only, for which lines
  76 to 90 throw as well.
\<close>

lemma error_response_headers:
  "error_response env isAlb err = Inr r \<Longrightarrow>
     response.headers r = getResponseHeaders env True isAlb"
  by (auto simp add: error_response_def internal_error_response_def classified_response_def
           split: failure.splits if_splits)

lemma error_response_not_base64:
  "error_response env isAlb err = Inr r \<Longrightarrow> \<not> isBase64Encoded r"
  by (auto simp add: error_response_def internal_error_response_def classified_response_def
           split: failure.splits if_splits)


lemma fallback_response_base64:
  "fallback_response env isAlb err img = Inr r \<Longrightarrow> isBase64Encoded r"
  by (auto simp add: fallback_response_def image_response_def Let_def split: sum.splits)

lemma fallback_response_Inl:
  "fallback_response env isAlb err img = Inl e \<Longrightarrow>
     err = Nullish \<and> e = type_error \<and> error_response env isAlb' err = Inl type_error"
  by (cases err) (auto simp add: fallback_response_def error_response_def Let_def)

lemma fallback_response_headers:
  assumes "fallback_response env isAlb err img = Inr r"
  shows "response.headers r =
     (getResponseHeaders env False isAlb)
       (''Content-Type'' \<mapsto> getObjectOutput.ContentType img,
        ''Last-Modified'' \<mapsto> getObjectOutput.LastModified img,
        ''Cache-Control'' \<mapsto> Str ''max-age=31536000,public'')"
  using assms
  by (cases "status_of err") (auto simp add: fallback_response_def image_response_def Let_def)

subsection \<open>The library functions\<close>


lemma replace_whitespace_Nil_iff:
  "replace_whitespace s = [] \<longleftrightarrow> s = [] \<or> (\<exists>c. s = [c] \<and> is_whitespace c)"
  by (induction s) auto

lemma default_fallback_image_iff:
  "default_fallback_image env = Some (bucket, objectKey) \<longleftrightarrow>
     env ''ENABLE_DEFAULT_FALLBACK_IMAGE'' = Some ''Yes''
     \<and> env ''DEFAULT_FALLBACK_IMAGE_BUCKET'' = Some bucket
     \<and> env ''DEFAULT_FALLBACK_IMAGE_KEY'' = Some objectKey
     \<and> bucket \<noteq> [] \<and> \<not> (\<exists>c. bucket = [c] \<and> is_whitespace c)
     \<and> objectKey \<noteq> [] \<and> \<not> (\<exists>c. objectKey = [c] \<and> is_whitespace c)"
  by (auto simp add: default_fallback_image_def replace_whitespace_Nil_iff
           split: option.splits if_splits)

subsection \<open>The loop over the custom headers\<close>

text \<open>
  At every name but \<open>__proto__\<close> the loop of lines 36 to 38 is the overlay of the custom
  layer; a name that is no custom header is left as it was; and \<open>__proto__\<close> is not
  stored, unless an earlier \<open>__proto__: null\<close> has taken the prototype away.
\<close>

lemma custom_headers_untouched:
  "key \<notin> fst ` set obj \<Longrightarrow> custom_headers obj proto h key = h key"
  by (induction obj proto h rule: custom_headers.induct) auto

lemma custom_headers_overlay:
  "key \<noteq> ''__proto__'' \<Longrightarrow> custom_headers obj proto h key = (h ++ map_of (rev obj)) key"
proof (induction obj proto h rule: custom_headers.induct)
  case (1 proto h)
  then show ?case by simp
next
  case (2 k v rest proto h)
  show ?case
  proof (cases "k = ''__proto__'' \<and> proto")
    case True
    then have "custom_headers ((k, v) # rest) proto h key = custom_headers rest (v \<noteq> Null) h key"
      by simp
    also have "\<dots> = (h ++ map_of (rev rest)) key"
      using "2.IH"(1) [OF True "2.prems"] .
    also have "\<dots> = (h ++ map_of (rev ((k, v) # rest))) key"
      using True "2.prems" by (simp add: map_add_def split: option.splits)
    finally show ?thesis .
  next
    case False
    then have "custom_headers ((k, v) # rest) proto h key = custom_headers rest proto (h(k \<mapsto> v)) key"
      by auto
    also have "\<dots> = (h(k \<mapsto> v) ++ map_of (rev rest)) key"
      using "2.IH"(2) [OF False "2.prems"] .
    also have "\<dots> = (h ++ map_of (rev ((k, v) # rest))) key"
      by (simp add: map_add_def split: option.splits)
    finally show ?thesis .
  qed
qed

lemma custom_headers_proto:
  "proto \<Longrightarrow> (''__proto__'', Null) \<notin> set obj \<Longrightarrow>
     custom_headers obj proto h ''__proto__'' = h ''__proto__''"
  by (induction obj proto h rule: custom_headers.induct) auto

lemma custom_headers_proto_distinct:
  "proto \<Longrightarrow> distinct (map fst obj) \<Longrightarrow>
     custom_headers obj proto h ''__proto__'' = h ''__proto__''"
proof (induction obj proto h rule: custom_headers.induct)
  case (1 proto h)
  then show ?case by simp
next
  case (2 key v rest proto h)
  show ?case
  proof (cases "key = ''__proto__''")
    case True
    then have "''__proto__'' \<notin> fst ` set rest" using "2.prems" by auto
    then show ?thesis
      using True "2.prems" by (simp add: custom_headers_untouched)
  next
    case False
    have d: "distinct (map fst rest)" using "2.prems"(2) by simp
    have n: "\<not> (key = ''__proto__'' \<and> proto)" using False by simp
    have "custom_headers ((key, v) # rest) proto h ''__proto__''
        = custom_headers rest proto (h(key \<mapsto> v)) ''__proto__''"
      using n by auto
    also have "\<dots> = (h(key \<mapsto> v)) ''__proto__''"
      by (rule "2.IH"(2) [OF n "2.prems"(1) d])
    also have "\<dots> = h ''__proto__''"
      using False by simp
    finally show ?thesis .
  qed
qed

lemma custom_layer_dom:
  "dom (custom_layer request)
     = (case request.headers request of None \<Rightarrow> {} | Some obj \<Rightarrow> fst ` set obj)"
  by (simp add: custom_layer_def dom_map_of_conv_image_fst split: option.splits)

lemma proto_not_composed:
  "''__proto__'' \<notin> dom (metadata_layer request)"
  "''__proto__'' \<notin> dom (getResponseHeaders env isErr isAlb)"
  by (simp_all add: metadata_layer_def getResponseHeaders_def Let_def dom_def)

subsection \<open>The structure of an invocation\<close>

text \<open>
  An invocation is the secret step, then line 21, then the \<open>try\<close> block, then, if that
  failed, the \<open>catch\<close> block. The lemmas below take the handler apart along these
  lines, and say when each step throws.
\<close>

lemma is_alb_origin: "is_alb event = Inr b \<Longrightarrow> alb_origin event = b"
  by (simp add: alb_origin_def)



lemma ensureSecretKeyLoaded_noop:
  "truthy (secretKey s) \<or> env ''ENABLE_SIGNATURE'' \<noteq> Some ''Yes'' \<Longrightarrow>
     ensureSecretKeyLoaded w env s = (Inr (), s)"
  by (auto simp add: ensureSecretKeyLoaded_def)

lemma ensureSecretKeyLoaded_fetch:
  assumes "\<not> truthy (secretKey s)" and "env ''ENABLE_SIGNATURE'' = Some ''Yes''"
  shows "ensureSecretKeyLoaded w env s =
     (case parameterStore_getParameter w (env_value (env ''PS_PARAMETER_NAME'')) of
        Inl err \<Rightarrow>
          (Inl err, s\<lparr>calls := calls s @ [GetParameter (env_value (env ''PS_PARAMETER_NAME''))]\<rparr>)
      | Inr v \<Rightarrow>
          (Inr (), s\<lparr>calls := calls s @ [GetParameter (env_value (env ''PS_PARAMETER_NAME''))],
                       secretKey := v\<rparr>))"
  using assms by (simp add: ensureSecretKeyLoaded_def Let_def split: sum.splits)



lemma catch_block_secretKey: "secretKey (snd (catch_block w env isAlb err s)) = secretKey s"
  by (simp add: catch_block_def Let_def split: option.splits prod.splits sum.splits)

lemma catch_block_response:
  "fst (catch_block w env isAlb err s) =
     (case default_fallback_image env of
        None \<Rightarrow> error_response env isAlb err
      | Some (bucket, objectKey) \<Rightarrow>
          (case s3_getObject w bucket objectKey of
             Inl error \<Rightarrow> error_response env isAlb err
           | Inr img \<Rightarrow>
               (case fallback_response env isAlb err img of
                  Inl error \<Rightarrow> error_response env isAlb err
                | Inr r \<Rightarrow> Inr r)))"
  by (simp add: catch_block_def Let_def split: option.splits prod.splits sum.splits)

lemma catch_block_calls:
  "calls (snd (catch_block w env isAlb err s)) =
     (case default_fallback_image env of
        None \<Rightarrow> calls s
      | Some (bucket, objectKey) \<Rightarrow> calls s @ [GetObject bucket objectKey])"
  by (simp add: catch_block_def Let_def split: option.splits prod.splits sum.splits)



lemma handler_rejects:
  "fst (ensureSecretKeyLoaded w env s) = Inl err \<Longrightarrow>
     handler w env event s = (Inl err, snd (ensureSecretKeyLoaded w env s))"
  by (cases "ensureSecretKeyLoaded w env s") (simp add: handler_def)

lemma handler_continues:
  "fst (ensureSecretKeyLoaded w env s) = Inr u \<Longrightarrow>
     handler w env event s =
       (case is_alb event of
          Inl err \<Rightarrow> (Inl err, snd (ensureSecretKeyLoaded w env s))
        | Inr isAlb \<Rightarrow>
            (case try_block w env (secretKey (snd (ensureSecretKeyLoaded w env s))) event isAlb of
               Inr r \<Rightarrow> (Inr r, snd (ensureSecretKeyLoaded w env s))
             | Inl err \<Rightarrow> catch_block w env isAlb err (snd (ensureSecretKeyLoaded w env s))))"
  by (cases "ensureSecretKeyLoaded w env s") (auto simp add: handler_def split: sum.splits)

lemma handler_secretKey:
  "secretKey (snd (handler w env event s)) = secretKey (snd (ensureSecretKeyLoaded w env s))"
proof (cases "fst (ensureSecretKeyLoaded w env s)")
  case (Inl err)
  then show ?thesis by (simp add: handler_rejects)
next
  case (Inr u)
  then show ?thesis
    by (simp add: handler_continues catch_block_secretKey split: sum.splits)
qed

lemma handler_Inr_cases:
  assumes "handler w env event s = (Inr r, s')"
  shows "fst (ensureSecretKeyLoaded w env s) = Inr ()"
    and "secretKey s' = secretKey (snd (ensureSecretKeyLoaded w env s))"
    and "is_alb event = Inr (alb_origin event)"
    and "case try_block w env (secretKey s') event (alb_origin event) of
           Inr r0 \<Rightarrow> r = r0
         | Inl err \<Rightarrow> fst (catch_block w env (alb_origin event) err
                             (snd (ensureSecretKeyLoaded w env s))) = Inr r"
proof -
  show ok: "fst (ensureSecretKeyLoaded w env s) = Inr ()"
  proof (cases "fst (ensureSecretKeyLoaded w env s)")
    case (Inl err)
    with assms show ?thesis by (simp add: handler_rejects)
  next
    case (Inr u)
    then show ?thesis by simp
  qed
  show sk: "secretKey s' = secretKey (snd (ensureSecretKeyLoaded w env s))"
    using handler_secretKey [of w env event s] assms by simp
  show al: "is_alb event = Inr (alb_origin event)"
  proof (cases "is_alb event")
    case (Inl err)
    with assms handler_continues [OF ok, of event] show ?thesis by simp
  next
    case (Inr b)
    then show ?thesis by (simp add: is_alb_origin)
  qed
  show "case try_block w env (secretKey s') event (alb_origin event) of
           Inr r0 \<Rightarrow> r = r0
         | Inl err \<Rightarrow> fst (catch_block w env (alb_origin event) err
                             (snd (ensureSecretKeyLoaded w env s))) = Inr r"
    using assms handler_continues [OF ok, of event] sk al
    by (auto split: sum.splits)
qed

lemma handler_branches:
  assumes "handler w env event s = (Inr r, s')"
  shows "case try_block w env (secretKey s') event (alb_origin event) of
           Inr r0 \<Rightarrow> r = r0
         | Inl err \<Rightarrow>
             (case default_fallback_image env of
                None \<Rightarrow> error_response env (alb_origin event) err = Inr r
              | Some (bucket, objectKey) \<Rightarrow>
                  (case s3_getObject w bucket objectKey of
                     Inr img \<Rightarrow> fallback_response env (alb_origin event) err img = Inr r
                   | Inl error \<Rightarrow> error_response env (alb_origin event) err = Inr r))"
proof (cases "try_block w env (secretKey s') event (alb_origin event)")
  case (Inr r0)
  then show ?thesis using handler_Inr_cases(4) [OF assms] by simp
next
  case (Inl err)
  then have c: "fst (catch_block w env (alb_origin event) err
      (snd (ensureSecretKeyLoaded w env s))) = Inr r"
    using handler_Inr_cases(4) [OF assms] by simp
  show ?thesis
  proof (cases "default_fallback_image env")
    case None
    then show ?thesis using c Inl by (simp add: catch_block_response)
  next
    case (Some bk)
    obtain bucket objectKey where bk: "bk = (bucket, objectKey)" by (cases bk)
    show ?thesis
    proof (cases "s3_getObject w bucket objectKey")
      case fetch_failed: (Inl error)
      then show ?thesis using c Inl Some bk by (simp add: catch_block_response)
    next
      case fetched: (Inr img)
      show ?thesis
      proof (cases "fallback_response env (alb_origin event) err img")
        case line66: (Inl e)
        from fallback_response_Inl [OF this, of "alb_origin event"]
        have "error_response env (alb_origin event) err = Inl type_error" by blast
        then show ?thesis
          using c Inl Some bk fetched line66 by (simp add: catch_block_response)
      next
        case (Inr r1)
        then show ?thesis
          using c Inl Some bk fetched by (simp add: catch_block_response)
      qed
    qed
  qed
qed

lemma handler_response_kinds:
  assumes "handler w env event s = (Inr r, s')"
  shows "try_block w env (secretKey s') event (alb_origin event) = Inr r
     \<or> (\<exists>err. error_response env (alb_origin event) err = Inr r)
     \<or> (\<exists>err img. fallback_response env (alb_origin event) err img = Inr r)"
proof (cases "try_block w env (secretKey s') event (alb_origin event)")
  case (Inr r0)
  then show ?thesis using handler_branches [OF assms] by simp
next
  case (Inl err)
  show ?thesis
  proof (cases "default_fallback_image env")
    case None
    then show ?thesis using handler_branches [OF assms] Inl by auto
  next
    case (Some bk)
    then show ?thesis
      using handler_branches [OF assms] Inl
      by (cases bk; cases "s3_getObject w (fst bk) (snd bk)") auto
  qed
qed



lemma handler_calls:
  assumes "handler w env event s = (Inr r, s')"
  shows "calls s' =
     calls (snd (ensureSecretKeyLoaded w env s)) @
       (case try_block w env (secretKey s') event (alb_origin event) of
          Inr r0 \<Rightarrow> []
        | Inl err \<Rightarrow>
            (case default_fallback_image env of
               None \<Rightarrow> []
             | Some (bucket, objectKey) \<Rightarrow> [GetObject bucket objectKey]))"
proof -
  have ok: "fst (ensureSecretKeyLoaded w env s) = Inr ()"
    and sk: "secretKey s' = secretKey (snd (ensureSecretKeyLoaded w env s))"
    and al: "is_alb event = Inr (alb_origin event)"
    using handler_Inr_cases [OF assms] by simp_all
  have "s' = snd (handler w env event s)" using assms by simp
  then show ?thesis
    using handler_continues [OF ok, of event] sk al
    by (auto simp add: catch_block_calls split: sum.splits option.splits)
qed

lemma handler_parameter_calls:
  "filter is_GetParameter (calls (snd (handler w env event s)))
     = filter is_GetParameter (calls (snd (ensureSecretKeyLoaded w env s)))"
proof (cases "fst (ensureSecretKeyLoaded w env s)")
  case (Inl err)
  then show ?thesis by (simp add: handler_rejects)
next
  case (Inr u)
  then show ?thesis
    by (simp add: handler_continues catch_block_calls split: sum.splits option.splits)
qed

lemma handler_keeps_secret:
  assumes "truthy (secretKey s)"
  shows "secretKey (snd (handler w env event s)) = secretKey s"
    and "filter is_GetParameter (calls (snd (handler w env event s)))
           = filter is_GetParameter (calls s)"
  using assms
  by (simp_all add: handler_secretKey handler_parameter_calls ensureSecretKeyLoaded_noop)

lemma try_block_success:
  "try_block w env secret event isAlb = Inr r \<Longrightarrow> isBase64Encoded r \<and> statusCode r = Num 200"
  by (auto simp add: try_block_def Let_def split: sum.splits)

lemma try_block_headers:
  assumes "imageRequest_setup w secret event = Inr request"
    and "imageHandler_process w request = Inr processedRequest"
  shows "try_block w env secret event isAlb =
           Inr \<lparr>statusCode = Num 200, isBase64Encoded = True,
                headers =
                  (case request.headers request of
                     None \<Rightarrow> getResponseHeaders env False isAlb ++ metadata_layer request
                   | Some obj \<Rightarrow>
                       custom_headers obj True
                         (getResponseHeaders env False isAlb ++ metadata_layer request)),
                body = processedRequest\<rparr>"
proof -
  have "(getResponseHeaders env False isAlb)
          (''Content-Type'' \<mapsto> request.ContentType request, ''Expires'' \<mapsto> Expires request,
           ''Last-Modified'' \<mapsto> request.LastModified request,
           ''Cache-Control'' \<mapsto> CacheControl request)
        = getResponseHeaders env False isAlb ++ metadata_layer request"
    by (rule ext) (simp add: metadata_layer_def map_add_def)
  then show ?thesis
    using assms
    by (simp add: try_block_def Let_def split: option.splits)
qed

lemma success_headers:
  assumes "handler w env event s = (Inr r, s')"
    and "imageRequest_setup w (secretKey s') event = Inr request"
    and "imageHandler_process w request = Inr processedRequest"
  shows "r = \<lparr>statusCode = Num 200, isBase64Encoded = True,
             headers =
               (case request.headers request of
                  None \<Rightarrow> getResponseHeaders env False (alb_origin event) ++ metadata_layer request
                | Some obj \<Rightarrow>
                    custom_headers obj True
                      (getResponseHeaders env False (alb_origin event) ++ metadata_layer request)),
             body = processedRequest\<rparr>"
  using handler_branches [OF assms(1)] try_block_headers [OF assms(2,3)]
  by simp

lemma success_header_layers:
  assumes "handler w env event s = (Inr r, s')"
    and "imageRequest_setup w (secretKey s') event = Inr request"
    and "imageHandler_process w request = Inr processedRequest"
    and "key \<noteq> ''__proto__''"
  shows "response.headers r key =
           (getResponseHeaders env False (alb_origin event) ++ metadata_layer request
              ++ custom_layer request) key"
proof (cases "request.headers request")
  case None
  then show ?thesis
    using success_headers [OF assms(1,2,3)] by (simp add: custom_layer_def)
next
  case (Some obj)
  then show ?thesis
    using success_headers [OF assms(1,2,3)] custom_headers_overlay [OF assms(4)]
    by (simp add: custom_layer_def)
qed

lemma failure_response_header:
  assumes h: "handler w env event s = (Inr r, s')"
    and t: "try_block w env (secretKey s') event (alb_origin event) = Inl err"
    and k: "key \<notin> {''Content-Type'', ''Last-Modified'', ''Cache-Control''}"
  shows "response.headers r key = getResponseHeaders env True (alb_origin event) key
     \<or> response.headers r key = getResponseHeaders env False (alb_origin event) key"
proof -
  have "(\<exists>e. error_response env (alb_origin event) e = Inr r)
      \<or> (\<exists>e img. fallback_response env (alb_origin event) e img = Inr r)"
    using handler_response_kinds [OF h] t by simp
  then show ?thesis
  proof (elim disjE exE)
    fix e assume "error_response env (alb_origin event) e = Inr r"
    then show ?thesis by (simp add: error_response_headers)
  next
    fix e img assume "fallback_response env (alb_origin event) e img = Inr r"
    from fallback_response_headers [OF this] k show ?thesis by simp
  qed
qed

lemma success_response_header:
  assumes h: "handler w env event s = (Inr r, s')"
    and t: "try_block w env (secretKey s') event (alb_origin event) = Inr r0"
    and p: "imageRequest_setup w (secretKey s') event = Inr request"
    and k: "key \<notin> {''Content-Type'', ''Expires'', ''Last-Modified'', ''Cache-Control'',
                    ''__proto__''}"
  shows "response.headers r key =
     (case custom_layer request key of
        Some v \<Rightarrow> Some v
      | None \<Rightarrow> getResponseHeaders env False (alb_origin event) key)"
proof -
  obtain processedRequest where q: "imageHandler_process w request = Inr processedRequest"
    using t p by (auto simp add: try_block_def split: sum.splits)
  have m: "metadata_layer request key = None"
    using k by (simp add: metadata_layer_def)
  have "key \<noteq> ''__proto__''" using k by simp
  from success_header_layers [OF h p q this] m show ?thesis
    by (simp add: map_add_def split: option.splits)
qed

subsection \<open>Runs\<close>

lemma invocations_keep_secret:
  "truthy (secretKey s) \<Longrightarrow>
     secretKey (invocations env ws s) = secretKey s
     \<and> filter is_GetParameter (calls (invocations env ws s)) = filter is_GetParameter (calls s)"
proof (induction ws arbitrary: s)
  case Nil
  then show ?case by simp
next
  case (Cons a ws)
  obtain w event where a: "a = (w, event)" by (cases a)
  let ?s1 = "snd (handler w env event s)"
  have k: "secretKey ?s1 = secretKey s"
    and c: "filter is_GetParameter (calls ?s1) = filter is_GetParameter (calls s)"
    using handler_keeps_secret [OF Cons.prems] by simp_all
  then have "truthy (secretKey ?s1)" using Cons.prems by simp
  from Cons.IH [OF this] show ?case by (simp add: a k c)
qed

lemma secret_loads_zero: "truthy (secretKey s) \<Longrightarrow> secret_loads env ws s = 0"
proof (induction ws arbitrary: s)
  case Nil
  then show ?case by simp
next
  case (Cons a ws)
  obtain w event where a: "a = (w, event)" by (cases a)
  have k: "secretKey (snd (handler w env event s)) = secretKey s"
    using handler_keeps_secret [OF Cons.prems] by simp
  then have "truthy (secretKey (snd (handler w env event s)))" using Cons.prems by simp
  from Cons.IH [OF this] show ?case by (simp add: a k Let_def)
qed

lemma secret_loads_le_1: "secret_loads env ws s \<le> 1"
proof (induction ws arbitrary: s)
  case Nil
  then show ?case by simp
next
  case (Cons a ws)
  obtain w event where a: "a = (w, event)" by (cases a)
  let ?s1 = "snd (handler w env event s)"
  show ?case
  proof (cases "secretKey ?s1 \<noteq> secretKey s \<and> truthy (secretKey ?s1)")
    case True
    then have "secret_loads env ws ?s1 = 0" by (simp add: secret_loads_zero)
    then show ?thesis using True by (simp add: a Let_def)
  next
    case False
    then show ?thesis using Cons.IH [of ?s1] by (auto simp add: a Let_def)
  qed
qed

subsection \<open>The example invocations, evaluated\<close>

lemma initial_state_simps: "secretKey initial_state = Undefined" "calls initial_state = []"
  by (simp_all add: initial_state_def)

lemma is_alb_examples:
  "is_alb gateway_event = Inr False" "is_alb alb_event = Inr True"
  "is_alb shadowed_event = Inl type_error"
  by (simp_all add: gateway_event_def alb_event_def shadowed_event_def)

lemma alb_origin_examples: "\<not> alb_origin gateway_event" "alb_origin alb_event"
  by (simp_all add: alb_origin_def is_alb_examples)

lemma example_world_simps:
  "parameterStore_getParameter (example_world a b c d) name = a"
  "imageRequest_setup (example_world a b c d) secret event = b"
  "imageHandler_process (example_world a b c d) request = c"
  "s3_getObject (example_world a b c d) bucket objectKey = d"
  by (simp_all add: example_world_def)

lemma signature_env_simps:
  "signature_env ''ENABLE_SIGNATURE'' = Some ''Yes''"
  "env_value (signature_env ''PS_PARAMETER_NAME'') = Str ''/images/key''"
  "default_fallback_image signature_env = None"
  by (simp_all add: signature_env_def env_value_def default_fallback_image_def)

lemma cors_env_simps:
  "cors_env ''CORS_ENABLED'' = Some ''Yes''"
  "env_value (cors_env ''CORS_ORIGIN'') = Str ''https://example.com''"
  "cors_env ''ENABLE_SIGNATURE'' = None"
  by (simp_all add: cors_env_def env_value_def)

lemma example_fallback_config:
  "default_fallback_image (fallback_env ''images'' ''fallback.jpg'')
     = Some (''images'', ''fallback.jpg'')"
  "fallback_env bucket objectKey ''ENABLE_SIGNATURE'' = None"
  "default_fallback_image Map.empty = None"
  by (simp_all add: default_fallback_image_def fallback_env_def is_whitespace_def)

lemma example_run:
  assumes "env ''ENABLE_SIGNATURE'' \<noteq> Some ''Yes''"
  shows "handler w env event initial_state =
     (case is_alb event of
        Inl err \<Rightarrow> (Inl err, initial_state)
      | Inr isAlb \<Rightarrow>
          (case try_block w env Undefined event isAlb of
             Inr r \<Rightarrow> (Inr r, initial_state)
           | Inl err \<Rightarrow> catch_block w env isAlb err initial_state))"
proof -
  have e: "ensureSecretKeyLoaded w env initial_state = (Inr (), initial_state)"
    using assms by (simp add: ensureSecretKeyLoaded_noop)
  show ?thesis
    by (simp add: handler_def e initial_state_simps cong: sum.case_cong)
qed

lemma example_failure_try:
  "try_block (example_world secret (Inl err) processed fetched) env key event isAlb = Inl err"
  by (simp add: try_block_def example_world_simps)

lemma failing_world_try: "try_block (failing_world err fetched) env key event isAlb = Inl err"
  by (simp add: failing_world_def example_failure_try)

lemma failing_world_fetch:
  "s3_getObject (failing_world err True) bucket objectKey = Inr example_image"
  "s3_getObject (failing_world err False) bucket objectKey = Inl (Object access_denied)"
  by (simp_all add: failing_world_def example_world_simps)

lemma example_error:
  "handler (failing_world err False) Map.empty gateway_event initial_state
     = (error_response Map.empty False err, initial_state)"
  using example_run [of Map.empty "failing_world err False" gateway_event]
  by (simp add: is_alb_examples failing_world_try catch_block_def example_fallback_config)

lemma example_not_found:
  "handler (failing_world (Object not_found) False) Map.empty gateway_event initial_state
     = (Inr (classified_response Map.empty False not_found), initial_state)"
  by (simp add: example_error error_response_def property_def not_found_def)

lemma example_access_denied:
  "handler (failing_world (Object access_denied) False) Map.empty gateway_event initial_state
     = (Inr (internal_error_response Map.empty False), initial_state)"
  by (simp add: example_error error_response_def property_def access_denied_def)

lemma example_fallback:
  "handler (failing_world (Object obj) True) (fallback_env ''images'' ''fallback.jpg'')
     alb_event initial_state
   = (Inr (image_response (fallback_env ''images'' ''fallback.jpg'') True
             (property obj ''status'') example_image),
      initial_state\<lparr>calls := [GetObject ''images'' ''fallback.jpg'']\<rparr>)"
  using example_run [of "fallback_env ''images'' ''fallback.jpg''"
      "failing_world (Object obj) True" alb_event]
  by (simp add: is_alb_examples failing_world_try failing_world_fetch catch_block_def
        example_fallback_config fallback_response_def initial_state_simps)

lemma example_success:
  assumes "env ''ENABLE_SIGNATURE'' \<noteq> Some ''Yes''" and "is_alb event = Inr b"
  shows "handler (success_world request) env event initial_state
     = (Inr (success_response env b request), initial_state)"
proof -
  have t: "try_block (success_world request) env Undefined event b
      = Inr (success_response env b request)"
    by (simp add: success_response_def success_world_def example_world_simps try_block_headers)
  show ?thesis
    using example_run [of env "success_world request" event] assms
    by (simp add: t)
qed


lemma example_secret_run:
  "invocations signature_env secret_run initial_state
     = \<lparr>secretKey = Str ''s3cr3t'',
        calls = [GetParameter (Str ''/images/key''), GetParameter (Str ''/images/key'')]\<rparr>"
  by (simp add: secret_run_def handler_def ensureSecretKeyLoaded_def signature_env_simps
        example_world_simps initial_state_def try_block_def catch_block_def Let_def
        is_alb_examples error_response_def property_def not_found_def)

subsection \<open>Claims about the handler and the secret\<close>




text \<open>
  C2. The claim has no fetch of the fallback object when the configured bucket or key
  is empty after trimming. The condition of lines 51 to 55 removes one whitespace
  character only: with the fallback enabled, a key, and a bucket of two spaces the
  condition holds, and a failing invocation sends \<open>getObject\<close> for the bucket of two
  spaces. For a bucket of one space the fetch is skipped, as the claim has it.
\<close>

theorem fallback_fetched_for_blank_bucket:
  "default_fallback_image (fallback_env ''  '' ''fallback.jpg'') = Some (''  '', ''fallback.jpg'')
   \<and> calls (snd (handler
        (example_world (Inr (Str ''k'')) (Inl (Object not_found)) (Inr ''TWFueQ=='')
           (Inl (Object access_denied)))
        (fallback_env ''  '' ''fallback.jpg'') gateway_event initial_state))
       = [GetObject ''  '' ''fallback.jpg'']
   \<and> replace_whitespace ''  '' = '' ''
   \<and> default_fallback_image (fallback_env '' '' ''fallback.jpg'') = None"
proof -
  let ?w = "example_world (Inr (Str ''k'')) (Inl (Object not_found)) (Inr ''TWFueQ=='')
              (Inl (Object access_denied))"
  let ?env = "fallback_env ''  '' ''fallback.jpg''"
  have d: "default_fallback_image ?env = Some (''  '', ''fallback.jpg'')"
    by (simp add: default_fallback_image_def fallback_env_def is_whitespace_def)
  have "calls (snd (handler ?w ?env gateway_event initial_state)) = [GetObject ''  '' ''fallback.jpg'']"
    using example_run [of ?env ?w gateway_event]
    by (simp add: example_fallback_config is_alb_examples example_failure_try catch_block_calls d
          initial_state_simps)
  moreover have "replace_whitespace ''  '' = '' ''"
    by (simp add: is_whitespace_def)
  moreover have "default_fallback_image (fallback_env '' '' ''fallback.jpg'') = None"
    by (simp add: default_fallback_image_def fallback_env_def is_whitespace_def)
  ultimately show ?thesis using d by simp
qed



text \<open>
  C4. \<open>ensureSecretKeyLoaded\<close> changes nothing and sends no request when signature
  checking is not enabled, and when the secret is set (truthy, as line 123 tests it).
  When the secret is not set and signature checking is enabled, it sends one request
  to the parameter store: if the request fails, the failure is thrown and the secret
  stays as it was; if it succeeds, its value becomes the secret. Hence, in every run of
  invocations, a secret that is set stays the same and no further request for it is
  sent, and at most one invocation of a run stores a secret.
\<close>

theorem secret_loaded_once:
  "(env ''ENABLE_SIGNATURE'' \<noteq> Some ''Yes'' \<longrightarrow> ensureSecretKeyLoaded w env s = (Inr (), s))
   \<and> (truthy (secretKey s) \<longrightarrow> ensureSecretKeyLoaded w env s = (Inr (), s))
   \<and> (\<not> truthy (secretKey s) \<and> env ''ENABLE_SIGNATURE'' = Some ''Yes''
        \<and> parameterStore_getParameter w (env_value (env ''PS_PARAMETER_NAME'')) = Inl err \<longrightarrow>
          fst (ensureSecretKeyLoaded w env s) = Inl err
          \<and> secretKey (snd (ensureSecretKeyLoaded w env s)) = secretKey s)
   \<and> (\<not> truthy (secretKey s) \<and> env ''ENABLE_SIGNATURE'' = Some ''Yes''
        \<and> parameterStore_getParameter w (env_value (env ''PS_PARAMETER_NAME'')) = Inr v \<longrightarrow>
          ensureSecretKeyLoaded w env s =
            (Inr (), s\<lparr>calls := calls s @ [GetParameter (env_value (env ''PS_PARAMETER_NAME''))],
                         secretKey := v\<rparr>))
   \<and> (truthy (secretKey s) \<longrightarrow>
          secretKey (invocations env ws s) = secretKey s
          \<and> filter is_GetParameter (calls (invocations env ws s))
              = filter is_GetParameter (calls s))
   \<and> secret_loads env ws s \<le> 1"
proof (intro conjI impI)
  show "ensureSecretKeyLoaded w env s = (Inr (), s)" if "env ''ENABLE_SIGNATURE'' \<noteq> Some ''Yes''"
    using that by (simp add: ensureSecretKeyLoaded_noop)
  show "ensureSecretKeyLoaded w env s = (Inr (), s)" if "truthy (secretKey s)"
    using that by (simp add: ensureSecretKeyLoaded_noop)
  show "secret_loads env ws s \<le> 1" by (rule secret_loads_le_1)
  show "secretKey (invocations env ws s) = secretKey s" if "truthy (secretKey s)"
    using invocations_keep_secret [OF that] by simp
  show "filter is_GetParameter (calls (invocations env ws s)) = filter is_GetParameter (calls s)"
    if "truthy (secretKey s)"
    using invocations_keep_secret [OF that] by simp
next
  assume a: "\<not> truthy (secretKey s) \<and> env ''ENABLE_SIGNATURE'' = Some ''Yes''
        \<and> parameterStore_getParameter w (env_value (env ''PS_PARAMETER_NAME'')) = Inl err"
  then have e: "ensureSecretKeyLoaded w env s =
      (Inl err, s\<lparr>calls := calls s @ [GetParameter (env_value (env ''PS_PARAMETER_NAME''))]\<rparr>)"
    by (simp add: ensureSecretKeyLoaded_fetch)
  show "fst (ensureSecretKeyLoaded w env s) = Inl err" by (simp add: e)
  show "secretKey (snd (ensureSecretKeyLoaded w env s)) = secretKey s" by (simp add: e)
next
  assume a: "\<not> truthy (secretKey s) \<and> env ''ENABLE_SIGNATURE'' = Some ''Yes''
        \<and> parameterStore_getParameter w (env_value (env ''PS_PARAMETER_NAME'')) = Inr v"
  then show "ensureSecretKeyLoaded w env s =
            (Inr (), s\<lparr>calls := calls s @ [GetParameter (env_value (env ''PS_PARAMETER_NAME''))],
                         secretKey := v\<rparr>)"
    by (simp add: ensureSecretKeyLoaded_fetch)
qed

theorem secret_loaded_once_witness:
  "\<not> truthy (secretKey initial_state)
   \<and> signature_env ''ENABLE_SIGNATURE'' = Some ''Yes''
   \<and> parameterStore_getParameter
        (example_world (Inl (Object access_denied)) (Inl (Object not_found)) (Inr ''TWFueQ=='')
           (Inl (Object access_denied)))
        (env_value (signature_env ''PS_PARAMETER_NAME'')) = Inl (Object access_denied)
   \<and> fst (ensureSecretKeyLoaded
        (example_world (Inl (Object access_denied)) (Inl (Object not_found)) (Inr ''TWFueQ=='')
           (Inl (Object access_denied)))
        signature_env initial_state) = Inl (Object access_denied)
   \<and> secretKey (snd (ensureSecretKeyLoaded
        (example_world (Inl (Object access_denied)) (Inl (Object not_found)) (Inr ''TWFueQ=='')
           (Inl (Object access_denied)))
        signature_env initial_state)) = Undefined
   \<and> truthy (secretKey \<lparr>secretKey = Str ''s3cr3t'', calls = []\<rparr>)
   \<and> secretKey (invocations signature_env secret_run \<lparr>secretKey = Str ''s3cr3t'', calls = []\<rparr>)
        = Str ''s3cr3t''
   \<and> filter is_GetParameter
        (calls (invocations signature_env secret_run \<lparr>secretKey = Str ''s3cr3t'', calls = []\<rparr>))
        = []
   \<and> invocations signature_env secret_run initial_state
        = \<lparr>secretKey = Str ''s3cr3t'',
           calls = [GetParameter (Str ''/images/key''), GetParameter (Str ''/images/key'')]\<rparr>
   \<and> secret_loads signature_env secret_run initial_state \<le> 1"
  using secret_loaded_once [of signature_env
      "example_world (Inl (Object access_denied)) (Inl (Object not_found)) (Inr ''TWFueQ=='')
         (Inl (Object access_denied))"
      initial_state "Object access_denied" "Str ''s3cr3t''" secret_run]
    secret_loaded_once [of signature_env
      "example_world (Inl (Object access_denied)) (Inl (Object not_found)) (Inr ''TWFueQ=='')
         (Inl (Object access_denied))"
      "\<lparr>secretKey = Str ''s3cr3t'', calls = []\<rparr>" "Object access_denied" "Str ''s3cr3t''" secret_run]
    example_secret_run
  by (simp add: signature_env_simps example_world_simps initial_state_simps)

text \<open>
  C5. The headers of a success response are built in the order of lines 28 to 39: the
  composed headers, then the four metadata values of the processed request, then its
  custom headers. At every name but \<open>__proto__\<close> they are the three layers laid over each
  other. So for a name in more than one layer the custom header wins, and a metadata
  value wins over a composed header. The name \<open>__proto__\<close> is in neither of the first
  two layers; a custom header of that name is not stored.
\<close>

theorem header_overlay_order:
  assumes "handler w env event s = (Inr r, s')"
    and "imageRequest_setup w (secretKey s') event = Inr request"
    and "imageHandler_process w request = Inr processedRequest"
  shows "(key \<noteq> ''__proto__'' \<longrightarrow>
          response.headers r key =
            (getResponseHeaders env False (alb_origin event) ++ metadata_layer request
               ++ custom_layer request) key)
     \<and> (key \<in> dom (custom_layer request) \<longrightarrow>
          key \<in> dom (metadata_layer request) \<union> dom (getResponseHeaders env False (alb_origin event)) \<longrightarrow>
          response.headers r key = custom_layer request key)
     \<and> (key \<in> dom (custom_layer request) \<longrightarrow> key \<noteq> ''__proto__'' \<longrightarrow>
          response.headers r key = custom_layer request key)
     \<and> (key \<notin> dom (custom_layer request) \<longrightarrow> key \<in> dom (metadata_layer request) \<longrightarrow>
          response.headers r key = metadata_layer request key)
     \<and> (key \<notin> dom (custom_layer request) \<longrightarrow> key \<notin> dom (metadata_layer request) \<longrightarrow>
          response.headers r key = getResponseHeaders env False (alb_origin event) key)
     \<and> ((\<forall>obj. request.headers request = Some obj \<longrightarrow> (''__proto__'', Null) \<notin> set obj) \<longrightarrow>
          response.headers r ''__proto__'' = None)
     \<and> ((\<forall>obj. request.headers request = Some obj \<longrightarrow> distinct (map fst obj)) \<longrightarrow>
          response.headers r ''__proto__'' = None)"
proof -
  let ?composed = "getResponseHeaders env False (alb_origin event)"
  let ?all = "?composed ++ metadata_layer request ++ custom_layer request"
  have layers: "response.headers r k = ?all k" if "k \<noteq> ''__proto__''" for k
    using success_header_layers [OF assms that] .
  have r: "response.headers r =
      (case request.headers request of
         None \<Rightarrow> ?composed ++ metadata_layer request
       | Some obj \<Rightarrow> custom_headers obj True (?composed ++ metadata_layer request))"
    using success_headers [OF assms] by simp
  have base: "(?composed ++ metadata_layer request) ''__proto__'' = None"
    using proto_not_composed(1) [of request] proto_not_composed(2) [of env False "alb_origin event"]
    by (simp add: map_add_def dom_def split: option.splits)
  have c1: "key \<noteq> ''__proto__'' \<longrightarrow> response.headers r key = ?all key"
    using layers by simp
  have c3: "key \<in> dom (custom_layer request) \<longrightarrow> key \<noteq> ''__proto__'' \<longrightarrow>
      response.headers r key = custom_layer request key"
    using layers [of key] by (auto simp add: map_add_def dom_def split: option.splits)
  have c2: "key \<in> dom (custom_layer request) \<longrightarrow>
      key \<in> dom (metadata_layer request) \<union> dom ?composed \<longrightarrow>
      response.headers r key = custom_layer request key"
    using c3 proto_not_composed(1) [of request] proto_not_composed(2) [of env False "alb_origin event"] by auto
  have c4: "key \<notin> dom (custom_layer request) \<longrightarrow> key \<in> dom (metadata_layer request) \<longrightarrow>
      response.headers r key = metadata_layer request key"
  proof (intro impI)
    assume a: "key \<notin> dom (custom_layer request)" and b: "key \<in> dom (metadata_layer request)"
    then have "key \<noteq> ''__proto__''" using proto_not_composed(1) [of request] by auto
    from layers [OF this] a b show "response.headers r key = metadata_layer request key"
      by (auto simp add: map_add_def dom_def split: option.splits)
  qed
  have c5: "key \<notin> dom (custom_layer request) \<longrightarrow> key \<notin> dom (metadata_layer request) \<longrightarrow>
      response.headers r key = ?composed key"
  proof (intro impI)
    assume a: "key \<notin> dom (custom_layer request)" and b: "key \<notin> dom (metadata_layer request)"
    show "response.headers r key = ?composed key"
    proof (cases "request.headers request")
      case None
      then show ?thesis using r b by (simp add: map_add_def dom_def split: option.splits)
    next
      case (Some obj)
      then have "key \<notin> fst ` set obj" using a by (simp add: custom_layer_dom)
      then show ?thesis
        using r Some b custom_headers_untouched [of key obj]
        by (simp add: map_add_def dom_def split: option.splits)
    qed
  qed
  have c6: "(\<forall>obj. request.headers request = Some obj \<longrightarrow> (''__proto__'', Null) \<notin> set obj) \<longrightarrow>
      response.headers r ''__proto__'' = None"
  proof (intro impI)
    assume a: "\<forall>obj. request.headers request = Some obj \<longrightarrow> (''__proto__'', Null) \<notin> set obj"
    show "response.headers r ''__proto__'' = None"
    proof (cases "request.headers request")
      case None
      then show ?thesis using r base by simp
    next
      case (Some obj)
      then have "(''__proto__'', Null) \<notin> set obj" using a by simp
      then show ?thesis
        using r Some base custom_headers_proto [of True obj] by simp
    qed
  qed
  have c7: "(\<forall>obj. request.headers request = Some obj \<longrightarrow> distinct (map fst obj)) \<longrightarrow>
      response.headers r ''__proto__'' = None"
  proof (intro impI)
    assume a: "\<forall>obj. request.headers request = Some obj \<longrightarrow> distinct (map fst obj)"
    show "response.headers r ''__proto__'' = None"
    proof (cases "request.headers request")
      case None
      then show ?thesis using r base by simp
    next
      case (Some obj)
      then have "distinct (map fst obj)" using a by simp
      then show ?thesis
        using r Some base custom_headers_proto_distinct [of True obj] by simp
    qed
  qed
  show ?thesis using c1 c2 c3 c4 c5 c6 c7 by blast
qed

theorem header_overlay_order_witness:
  "handler (success_world custom_request) cors_env gateway_event initial_state
     = (Inr (success_response cors_env False custom_request), initial_state)
   \<and> imageRequest_setup (success_world custom_request) (secretKey initial_state) gateway_event
       = Inr custom_request
   \<and> imageHandler_process (success_world custom_request) custom_request = Inr ''TWFueQ==''
   \<and> ''Cache-Control'' \<in> dom (custom_layer custom_request)
   \<and> ''Cache-Control'' \<in> dom (metadata_layer custom_request)
   \<and> metadata_layer custom_request ''Cache-Control'' = Some (Str ''max-age=60,public'')
   \<and> response.headers (success_response cors_env False custom_request) ''Cache-Control''
       = Some (Str ''no-store'')
   \<and> response.headers (success_response cors_env False custom_request) ''X-Foo''
       = Some (Str ''bar'')
   \<and> handler (success_world proto_request) cors_env gateway_event initial_state
       = (Inr (success_response cors_env False proto_request), initial_state)
   \<and> response.headers (success_response cors_env False proto_request) ''__proto__'' = None
   \<and> response.headers (success_response cors_env False proto_request) ''X-Foo''
       = Some (Str ''bar'')"
proof -
  have e: "cors_env ''ENABLE_SIGNATURE'' \<noteq> Some ''Yes''"
    by (simp add: cors_env_def)
  have h: "handler (success_world request) cors_env gateway_event initial_state
     = (Inr (success_response cors_env False request), initial_state)" for request
    using example_success [of cors_env gateway_event False request] e is_alb_examples(1)
    by simp
  have p: "imageRequest_setup (success_world request) (secretKey initial_state) gateway_event
       = Inr request" for request
    by (simp add: success_world_def example_world_simps)
  have q: "imageHandler_process (success_world request) request = Inr ''TWFueQ==''" for request
    by (simp add: success_world_def example_world_simps)
  have c: "custom_layer custom_request ''Cache-Control'' = Some (Str ''no-store'')"
       "custom_layer custom_request ''X-Foo'' = Some (Str ''bar'')"
    by (simp_all add: custom_layer_def custom_request_def example_request_def)
  have m: "metadata_layer custom_request ''Cache-Control'' = Some (Str ''max-age=60,public'')"
    by (simp add: metadata_layer_def custom_request_def example_request_def)
  have pr: "request.headers proto_request = Some [(''__proto__'', Str ''x''), (''X-Foo'', Str ''bar'')]"
       "custom_layer proto_request ''X-Foo'' = Some (Str ''bar'')"
    by (simp_all add: custom_layer_def proto_request_def example_request_def)
  have a: "response.headers (success_response cors_env False custom_request) ''Cache-Control''
       = Some (Str ''no-store'')"
    using header_overlay_order
        [OF h [of custom_request] p [of custom_request] q [of custom_request],
         of "''Cache-Control''"] c m
    by (simp add: dom_def)
  have b: "response.headers (success_response cors_env False custom_request) ''X-Foo''
       = Some (Str ''bar'')"
    using header_overlay_order
        [OF h [of custom_request] p [of custom_request] q [of custom_request], of "''X-Foo''"] c
    by (simp add: dom_def)
  have d: "response.headers (success_response cors_env False proto_request) ''__proto__'' = None"
    using header_overlay_order
        [OF h [of proto_request] p [of proto_request] q [of proto_request], of "''X-Foo''"] pr
    by simp
  have f: "response.headers (success_response cors_env False proto_request) ''X-Foo''
       = Some (Str ''bar'')"
    using header_overlay_order
        [OF h [of proto_request] p [of proto_request] q [of proto_request], of "''X-Foo''"] pr
    by (simp add: dom_def)
  show ?thesis
    using a b d f h p q c m by (simp add: dom_def)
qed



text \<open>
  C10. \<open>isBase64Encoded\<close> is true on the two responses that carry an image, the success
  response (with status 200) and the fallback response, and false on the two error
  responses of lines 76 to 90.
\<close>

theorem isBase64Encoded_branches:
  assumes "handler w env event s = (Inr r, s')"
  shows "case try_block w env (secretKey s') event (alb_origin event) of
           Inr r0 \<Rightarrow> r = r0 \<and> isBase64Encoded r \<and> statusCode r = Num 200
         | Inl err \<Rightarrow>
             (case default_fallback_image env of
                None \<Rightarrow>
                  error_response env (alb_origin event) err = Inr r \<and> \<not> isBase64Encoded r
              | Some (bucket, objectKey) \<Rightarrow>
                  (case s3_getObject w bucket objectKey of
                     Inr img \<Rightarrow>
                       fallback_response env (alb_origin event) err img = Inr r
                       \<and> isBase64Encoded r
                   | Inl error \<Rightarrow>
                       error_response env (alb_origin event) err = Inr r
                       \<and> \<not> isBase64Encoded r))"
  using handler_branches [OF assms]
  by (auto simp add: try_block_success
           dest: error_response_not_base64 fallback_response_base64
           split: sum.splits option.splits prod.splits)

theorem isBase64Encoded_branches_witness:
  "handler (failing_world (Object not_found) False) Map.empty gateway_event initial_state
     = (Inr (classified_response Map.empty False not_found), initial_state)
   \<and> \<not> isBase64Encoded (classified_response Map.empty False not_found)
   \<and> handler (failing_world (Object access_denied) False) Map.empty gateway_event initial_state
     = (Inr (internal_error_response Map.empty False), initial_state)
   \<and> \<not> isBase64Encoded (internal_error_response Map.empty False)
   \<and> handler (failing_world (Object not_found) True) (fallback_env ''images'' ''fallback.jpg'')
        alb_event initial_state
      = (Inr (image_response (fallback_env ''images'' ''fallback.jpg'') True
                (property not_found ''status'') example_image),
         initial_state\<lparr>calls := [GetObject ''images'' ''fallback.jpg'']\<rparr>)
   \<and> isBase64Encoded
        (image_response (fallback_env ''images'' ''fallback.jpg'') True
           (property not_found ''status'') example_image)
   \<and> handler (success_world custom_request) cors_env gateway_event initial_state
      = (Inr (success_response cors_env False custom_request), initial_state)
   \<and> isBase64Encoded (success_response cors_env False custom_request)
   \<and> statusCode (success_response cors_env False custom_request) = Num 200"
proof -
  have s: "handler (success_world custom_request) cors_env gateway_event initial_state
      = (Inr (success_response cors_env False custom_request), initial_state)"
    using example_success [of cors_env gateway_event False custom_request] is_alb_examples(1)
    by (simp add: cors_env_def)
  have st: "try_block (success_world custom_request) cors_env secret gateway_event isAlb
      = Inr (success_response cors_env isAlb custom_request)" for secret isAlb
    by (simp add: success_response_def success_world_def example_world_simps try_block_headers)
  have a: "\<not> isBase64Encoded (classified_response Map.empty False not_found)"
    using isBase64Encoded_branches [OF example_not_found]
    by (simp add: failing_world_try example_fallback_config)
  have a': "\<not> isBase64Encoded (internal_error_response Map.empty False)"
    using isBase64Encoded_branches [OF example_access_denied]
    by (simp add: failing_world_try example_fallback_config)
  have b: "isBase64Encoded
      (image_response (fallback_env ''images'' ''fallback.jpg'') True
         (property not_found ''status'') example_image)"
    using isBase64Encoded_branches [OF example_fallback [of not_found]]
    by (simp add: failing_world_try example_fallback_config failing_world_fetch)
  have c: "isBase64Encoded (success_response cors_env False custom_request)
      \<and> statusCode (success_response cors_env False custom_request) = Num 200"
    using isBase64Encoded_branches [OF s]
    by (simp add: st alb_origin_examples)
  show ?thesis
    using a a' b c example_not_found example_access_denied example_fallback [of not_found] s
    by simp
qed

subsection \<open>Claims about the header composer\<close>

text \<open>
  C7. Called in error mode, the header composer gives
  \<open>Content-Type: application/json\<close> for every configuration and ingress type. The error
  responses of lines 76 to 90 take the composed headers as they are: a response of the
  handler that is not an image (\<open>isBase64Encoded\<close> is false) has exactly the headers
  composed in error mode, so the header is neither overlaid nor removed.
\<close>

theorem error_mode_content_type:
  "getResponseHeaders env True isAlb ''Content-Type'' = Some (Str ''application/json'')
   \<and> (error_response env isAlb err = Inr r' \<longrightarrow>
        response.headers r' = getResponseHeaders env True isAlb)
   \<and> (handler w env event s = (Inr r, s') \<longrightarrow> \<not> isBase64Encoded r \<longrightarrow>
        response.headers r = getResponseHeaders env True (alb_origin event)
        \<and> response.headers r ''Content-Type'' = Some (Str ''application/json''))"
proof (intro conjI impI)
  show "getResponseHeaders env True isAlb ''Content-Type'' = Some (Str ''application/json'')"
    by (simp add: getResponseHeaders_content_type)
  show "response.headers r' = getResponseHeaders env True isAlb"
    if "error_response env isAlb err = Inr r'"
    using that by (rule error_response_headers)
next
  assume h: "handler w env event s = (Inr r, s')" and nb: "\<not> isBase64Encoded r"
  show hd: "response.headers r = getResponseHeaders env True (alb_origin event)"
    using handler_response_kinds [OF h] nb
    by (auto simp add: try_block_success
             dest: error_response_headers fallback_response_base64)
  show "response.headers r ''Content-Type'' = Some (Str ''application/json'')"
    by (simp add: hd getResponseHeaders_content_type)
qed

theorem error_mode_content_type_witness:
  "handler (failing_world (Object not_found) False) Map.empty gateway_event initial_state
     = (Inr (classified_response Map.empty False not_found), initial_state)
   \<and> \<not> isBase64Encoded (classified_response Map.empty False not_found)
   \<and> response.headers (classified_response Map.empty False not_found) ''Content-Type''
       = Some (Str ''application/json'')"
proof -
  have nb: "\<not> isBase64Encoded (classified_response Map.empty False not_found)"
    by (simp add: classified_response_def)
  show ?thesis
    using error_mode_content_type [of Map.empty False "Object not_found"
        "classified_response Map.empty False not_found"
        "failing_world (Object not_found) False"
        gateway_event initial_state "classified_response Map.empty False not_found" initial_state]
      example_not_found nb
    by (simp add: alb_origin_examples)
qed

text \<open>
  C8, as amended. The composed headers contain \<open>Access-Control-Allow-Credentials\<close>
  exactly for an invocation that is not of ALB origin, with the value \<open>true\<close>. A
  fallback or error response carries the composed value as it is: absent for ALB
  origin, \<open>true\<close> otherwise. A success response carries it too, unless the processed
  request has a custom header of that name, whose value is then applied last and
  replaces it (lines 34 to 39).
\<close>

theorem credentials_header:
  "getResponseHeaders env isErr isAlb ''Access-Control-Allow-Credentials''
     = (if isAlb then None else Some (Bool True))
   \<and> (handler w env event s = (Inr r, s') \<longrightarrow>
        (case try_block w env (secretKey s') event (alb_origin event) of
           Inl err \<Rightarrow>
             response.headers r ''Access-Control-Allow-Credentials''
               = (if alb_origin event then None else Some (Bool True))
         | Inr r0 \<Rightarrow>
             (\<forall>request. imageRequest_setup w (secretKey s') event = Inr request \<longrightarrow>
                response.headers r ''Access-Control-Allow-Credentials''
                  = (case custom_layer request ''Access-Control-Allow-Credentials'' of
                       Some v \<Rightarrow> Some v
                     | None \<Rightarrow> (if alb_origin event then None else Some (Bool True))))))"
proof (intro conjI impI)
  show "getResponseHeaders env isErr isAlb ''Access-Control-Allow-Credentials''
     = (if isAlb then None else Some (Bool True))"
    by (rule getResponseHeaders_credentials)
next
  assume h: "handler w env event s = (Inr r, s')"
  show "case try_block w env (secretKey s') event (alb_origin event) of
           Inl err \<Rightarrow>
             response.headers r ''Access-Control-Allow-Credentials''
               = (if alb_origin event then None else Some (Bool True))
         | Inr r0 \<Rightarrow>
             (\<forall>request. imageRequest_setup w (secretKey s') event = Inr request \<longrightarrow>
                response.headers r ''Access-Control-Allow-Credentials''
                  = (case custom_layer request ''Access-Control-Allow-Credentials'' of
                       Some v \<Rightarrow> Some v
                     | None \<Rightarrow> (if alb_origin event then None else Some (Bool True))))"
  proof (cases "try_block w env (secretKey s') event (alb_origin event)")
    case (Inl err)
    from failure_response_header [OF h this, of "''Access-Control-Allow-Credentials''"]
    show ?thesis using Inl by (simp add: getResponseHeaders_credentials)
  next
    case (Inr r0)
    have "response.headers r ''Access-Control-Allow-Credentials''
        = (case custom_layer request ''Access-Control-Allow-Credentials'' of
             Some v \<Rightarrow> Some v
           | None \<Rightarrow> (if alb_origin event then None else Some (Bool True)))"
      if "imageRequest_setup w (secretKey s') event = Inr request" for request
      using success_response_header [OF h Inr that, of "''Access-Control-Allow-Credentials''"]
      by (simp add: getResponseHeaders_credentials split: option.splits)
    then show ?thesis
      using Inr by simp
  qed
qed

theorem credentials_header_witness:
  "handler (failing_world (Object not_found) True) (fallback_env ''images'' ''fallback.jpg'')
     alb_event initial_state
   = (Inr (image_response (fallback_env ''images'' ''fallback.jpg'') True
             (property not_found ''status'') example_image),
      initial_state\<lparr>calls := [GetObject ''images'' ''fallback.jpg'']\<rparr>)
   \<and> alb_origin alb_event
   \<and> response.headers
        (image_response (fallback_env ''images'' ''fallback.jpg'') True
           (property not_found ''status'') example_image)
        ''Access-Control-Allow-Credentials'' = None
   \<and> getResponseHeaders Map.empty False False ''Access-Control-Allow-Credentials''
        = Some (Bool True)"
  using credentials_header [of "fallback_env ''images'' ''fallback.jpg''" False True
      "failing_world (Object not_found) True" alb_event initial_state
      "image_response (fallback_env ''images'' ''fallback.jpg'') True
         (property not_found ''status'') example_image"
      "initial_state\<lparr>calls := [GetObject ''images'' ''fallback.jpg'']\<rparr>"]
    credentials_header [of Map.empty False False]
    example_fallback [of not_found]
  by (simp add: failing_world_try alb_origin_examples)

text \<open>
  As first stated, with the header absent from every response of an ALB invocation,
  the claim does not hold: a processed request with the custom header
  \<open>Access-Control-Allow-Credentials\<close> puts it into the success response of an ALB
  invocation.
\<close>

theorem credentials_header_counterexample:
  "is_alb alb_event = Inr True
   \<and> \<not> isl (fst (handler
         (example_world (Inr (Str ''k''))
            (Inr (example_request (Some [(''Access-Control-Allow-Credentials'', Str ''true'')])))
            (Inr ''TWFueQ=='') (Inl (Object access_denied)))
         Map.empty alb_event initial_state))
   \<and> response.headers (projr (fst (handler
         (example_world (Inr (Str ''k''))
            (Inr (example_request (Some [(''Access-Control-Allow-Credentials'', Str ''true'')])))
            (Inr ''TWFueQ=='') (Inl (Object access_denied)))
         Map.empty alb_event initial_state)))
       ''Access-Control-Allow-Credentials'' = Some (Str ''true'')"
proof -
  let ?w = "example_world (Inr (Str ''k''))
            (Inr (example_request (Some [(''Access-Control-Allow-Credentials'', Str ''true'')])))
            (Inr ''TWFueQ=='') (Inl (Object access_denied))"
  have t: "try_block ?w Map.empty Undefined alb_event True =
      Inr \<lparr>statusCode = Num 200, isBase64Encoded = True,
           headers = (getResponseHeaders Map.empty False True)
             (''Content-Type'' \<mapsto> Str ''image/png'', ''Expires'' \<mapsto> Undefined,
              ''Last-Modified'' \<mapsto> Str ''Wed, 21 Oct 2015 07:28:00 GMT'',
              ''Cache-Control'' \<mapsto> Str ''max-age=60,public'',
              ''Access-Control-Allow-Credentials'' \<mapsto> Str ''true''),
           body = ''TWFueQ==''\<rparr>"
    by (simp add: try_block_def example_world_def example_request_def Let_def)
  show ?thesis
    using example_run [of Map.empty ?w alb_event]
    by (simp add: t is_alb_examples)
qed

text \<open>
  C9, as amended. \<open>Access-Control-Allow-Origin\<close> is a key of the composed headers if and
  only if \<open>CORS_ENABLED\<close> is \<open>Yes\<close>, and its value is then the value of
  \<open>process.env.CORS_ORIGIN\<close>, in both modes and for both ingress types. A fallback or
  error response carries the composed value as it is. A success response carries it
  too, unless the processed request has a custom header of that name, whose value is
  then applied last and replaces it (lines 34 to 39).
\<close>

theorem cors_origin_header:
  "(''Access-Control-Allow-Origin'' \<in> dom (getResponseHeaders env isErr isAlb))
     = (env ''CORS_ENABLED'' = Some ''Yes'')
   \<and> getResponseHeaders env isErr isAlb ''Access-Control-Allow-Origin''
       = (if env ''CORS_ENABLED'' = Some ''Yes''
          then Some (env_value (env ''CORS_ORIGIN'')) else None)
   \<and> (handler w env event s = (Inr r, s') \<longrightarrow>
        (case try_block w env (secretKey s') event (alb_origin event) of
           Inl err \<Rightarrow>
             response.headers r ''Access-Control-Allow-Origin''
               = (if env ''CORS_ENABLED'' = Some ''Yes''
                  then Some (env_value (env ''CORS_ORIGIN'')) else None)
         | Inr r0 \<Rightarrow>
             (\<forall>request. imageRequest_setup w (secretKey s') event = Inr request \<longrightarrow>
                response.headers r ''Access-Control-Allow-Origin''
                  = (case custom_layer request ''Access-Control-Allow-Origin'' of
                       Some v \<Rightarrow> Some v
                     | None \<Rightarrow>
                         (if env ''CORS_ENABLED'' = Some ''Yes''
                          then Some (env_value (env ''CORS_ORIGIN'')) else None)))))"
proof (intro conjI impI)
  show "(''Access-Control-Allow-Origin'' \<in> dom (getResponseHeaders env isErr isAlb))
     = (env ''CORS_ENABLED'' = Some ''Yes'')"
    by (simp add: getResponseHeaders_origin dom_def)
  show "getResponseHeaders env isErr isAlb ''Access-Control-Allow-Origin''
       = (if env ''CORS_ENABLED'' = Some ''Yes''
          then Some (env_value (env ''CORS_ORIGIN'')) else None)"
    by (rule getResponseHeaders_origin)
next
  assume h: "handler w env event s = (Inr r, s')"
  show "case try_block w env (secretKey s') event (alb_origin event) of
           Inl err \<Rightarrow>
             response.headers r ''Access-Control-Allow-Origin''
               = (if env ''CORS_ENABLED'' = Some ''Yes''
                  then Some (env_value (env ''CORS_ORIGIN'')) else None)
         | Inr r0 \<Rightarrow>
             (\<forall>request. imageRequest_setup w (secretKey s') event = Inr request \<longrightarrow>
                response.headers r ''Access-Control-Allow-Origin''
                  = (case custom_layer request ''Access-Control-Allow-Origin'' of
                       Some v \<Rightarrow> Some v
                     | None \<Rightarrow>
                         (if env ''CORS_ENABLED'' = Some ''Yes''
                          then Some (env_value (env ''CORS_ORIGIN'')) else None)))"
  proof (cases "try_block w env (secretKey s') event (alb_origin event)")
    case (Inl err)
    from failure_response_header [OF h this, of "''Access-Control-Allow-Origin''"]
    show ?thesis using Inl by (simp add: getResponseHeaders_origin)
  next
    case (Inr r0)
    have "response.headers r ''Access-Control-Allow-Origin''
        = (case custom_layer request ''Access-Control-Allow-Origin'' of
             Some v \<Rightarrow> Some v
           | None \<Rightarrow> (if env ''CORS_ENABLED'' = Some ''Yes''
                         then Some (env_value (env ''CORS_ORIGIN'')) else None))"
      if "imageRequest_setup w (secretKey s') event = Inr request" for request
      using success_response_header [OF h Inr that, of "''Access-Control-Allow-Origin''"]
      by (simp add: getResponseHeaders_origin split: option.splits)
    then show ?thesis
      using Inr by simp
  qed
qed

theorem cors_origin_header_witness:
  "cors_env ''CORS_ENABLED'' = Some ''Yes''
   \<and> getResponseHeaders cors_env False True ''Access-Control-Allow-Origin''
       = Some (Str ''https://example.com'')
   \<and> getResponseHeaders cors_env True False ''Access-Control-Allow-Origin''
       = Some (Str ''https://example.com'')
   \<and> ''Access-Control-Allow-Origin'' \<notin> dom (getResponseHeaders Map.empty False False)
   \<and> handler (failing_world (Object not_found) False) Map.empty gateway_event initial_state
       = (Inr (classified_response Map.empty False not_found), initial_state)
   \<and> response.headers (classified_response Map.empty False not_found)
        ''Access-Control-Allow-Origin'' = None
   \<and> handler (success_world custom_request) cors_env gateway_event initial_state
       = (Inr (success_response cors_env False custom_request), initial_state)
   \<and> response.headers (success_response cors_env False custom_request)
        ''Access-Control-Allow-Origin'' = Some (Str ''https://example.com'')"
proof -
  have s: "handler (success_world custom_request) cors_env gateway_event initial_state
      = (Inr (success_response cors_env False custom_request), initial_state)"
    using example_success [of cors_env gateway_event False custom_request] is_alb_examples(1)
    by (simp add: cors_env_simps)
  have st: "try_block (success_world custom_request) cors_env secret gateway_event isAlb
      = Inr (success_response cors_env isAlb custom_request)" for secret isAlb
    by (simp add: success_response_def success_world_def example_world_simps try_block_headers)
  have p: "imageRequest_setup (success_world custom_request) secret gateway_event
      = Inr custom_request" for secret
    by (simp add: success_world_def example_world_simps)
  have c: "custom_layer custom_request ''Access-Control-Allow-Origin'' = None"
    by (simp add: custom_layer_def custom_request_def example_request_def)
  have a: "response.headers (classified_response Map.empty False not_found)
        ''Access-Control-Allow-Origin'' = None"
    using cors_origin_header [of Map.empty False False "failing_world (Object not_found) False"
        gateway_event initial_state "classified_response Map.empty False not_found" initial_state]
      example_not_found
    by (simp add: failing_world_try alb_origin_examples)
  have b: "response.headers (success_response cors_env False custom_request)
        ''Access-Control-Allow-Origin'' = Some (Str ''https://example.com'')"
    using cors_origin_header [of cors_env False False "success_world custom_request"
        gateway_event initial_state "success_response cors_env False custom_request" initial_state]
      s
    by (simp add: st p c cors_env_simps alb_origin_examples)
  show ?thesis
    using cors_origin_header [of cors_env False True]
      cors_origin_header [of cors_env True False]
      cors_origin_header [of Map.empty False False]
      a b s example_not_found
    by (simp add: cors_env_simps)
qed

text \<open>
  As first stated, for success responses alike, the claim does not hold: with CORS
  not enabled, a processed request with the custom header
  \<open>Access-Control-Allow-Origin\<close> puts it into the success response.
\<close>

theorem cors_origin_header_counterexample:
  "Map.empty ''CORS_ENABLED'' \<noteq> Some ''Yes''
   \<and> \<not> isl (fst (handler
         (example_world (Inr (Str ''k''))
            (Inr (example_request (Some [(''Access-Control-Allow-Origin'', Str ''*'')])))
            (Inr ''TWFueQ=='') (Inl (Object access_denied)))
         Map.empty gateway_event initial_state))
   \<and> response.headers (projr (fst (handler
         (example_world (Inr (Str ''k''))
            (Inr (example_request (Some [(''Access-Control-Allow-Origin'', Str ''*'')])))
            (Inr ''TWFueQ=='') (Inl (Object access_denied)))
         Map.empty gateway_event initial_state)))
       ''Access-Control-Allow-Origin'' = Some (Str ''*'')"
proof -
  let ?w = "example_world (Inr (Str ''k''))
            (Inr (example_request (Some [(''Access-Control-Allow-Origin'', Str ''*'')])))
            (Inr ''TWFueQ=='') (Inl (Object access_denied))"
  have t: "try_block ?w Map.empty Undefined gateway_event False =
      Inr \<lparr>statusCode = Num 200, isBase64Encoded = True,
           headers = (getResponseHeaders Map.empty False False)
             (''Content-Type'' \<mapsto> Str ''image/png'', ''Expires'' \<mapsto> Undefined,
              ''Last-Modified'' \<mapsto> Str ''Wed, 21 Oct 2015 07:28:00 GMT'',
              ''Cache-Control'' \<mapsto> Str ''max-age=60,public'',
              ''Access-Control-Allow-Origin'' \<mapsto> Str ''*''),
           body = ''TWFueQ==''\<rparr>"
    by (simp add: try_block_def example_world_def example_request_def Let_def)
  show ?thesis
    using example_run [of Map.empty ?w gateway_event]
    by (simp add: t is_alb_examples)
qed

end
